theory Spec2Isabelle
  imports Main "HOL-Library.Word"
begin

section \<open>Common Go types\<close>

text \<open>
  A Go \<^verbatim>\<open>error\<close> is an interface value; \<^verbatim>\<open>nil\<close> is modelled by \<open>None\<close>.  The only
  errors the repository creates come from \<^verbatim>\<open>errors.New\<close>, whose value is determined by
  its message.
\<close>

datatype error = errorString string

definition errors_New :: "string \<Rightarrow> error" where
  "errors_New text = errorString text"

text \<open>
  A \<^verbatim>\<open>context.Context\<close> is observed only through its cancellation state.  Every function
  of the repository that receives one discards it (\<^verbatim>\<open>_ = ctx\<close>).
\<close>

datatype Context = Background | Canceled | DeadlineExceeded

text \<open>
  A \<^verbatim>\<open>float64\<close> is kept as its IEEE-754 binary64 bit pattern.  The code never computes
  with one: the only value it builds is the zero value \<open>+0.0\<close>, whose pattern is \<open>0\<close>.
\<close>

type_synonym float64 = "64 word"

text \<open>A \<^verbatim>\<open>time.Time\<close> is an instant, counted in nanoseconds.\<close>

type_synonym Time = int


section \<open>Domain entities (internal/domain/entities.go)\<close>

type_synonym MixType = string

definition MixTypeBeatportMaster :: MixType where
  "MixTypeBeatportMaster = ''BEATPORT_MASTER''"

definition MixTypeSpotifyMaster :: MixType where
  "MixTypeSpotifyMaster = ''SPOTIFY_MASTER''"

definition MixTypeVinylPremaster :: MixType where
  "MixTypeVinylPremaster = ''VINYL_PREMASTER''"

type_synonym JobStatus = string

definition JobStatusQueued :: JobStatus where
  "JobStatusQueued = ''QUEUED''"

definition JobStatusRunning :: JobStatus where
  "JobStatusRunning = ''RUNNING''"

definition JobStatusCompleted :: JobStatus where
  "JobStatusCompleted = ''COMPLETED''"

definition JobStatusFailed :: JobStatus where
  "JobStatusFailed = ''FAILED''"

text \<open>
  A Go map is read through lookups; the nil map and the empty map answer every lookup
  alike (absent).  A nil slice is the empty list.
\<close>

record QCResult =
  SampleRate :: int
  BitDepth :: int
  Channels :: int
  IntegratedLUFS :: float64
  TruePeakDBTP :: float64
  FilenameValid :: bool
  MetadataPresent :: "string \<rightharpoonup> bool"
  Passed :: bool
  Failures :: "string list"

text \<open>Pointer fields (\<^verbatim>\<open>*QCResult\<close>, \<^verbatim>\<open>*time.Time\<close>) are options, \<open>None\<close> for nil.\<close>

record Job =
  ID :: string
  ReleaseID :: string
  TrackID :: string
  MixFileID :: string
  Status :: JobStatus
  Error :: string
  Result :: "QCResult option"
  QueuedAt :: Time
  StartedAt :: "Time option"
  FinishedAt :: "Time option"


section \<open>QC engine (internal/qc/engine.go, internal/qc/ffmpeg.go)\<close>

record Input =
  Path :: string
  Filename :: string
  MixType :: string

record Result =
  SampleRate :: int
  BitDepth :: int
  Channels :: int
  IntegratedLUFS :: float64
  TruePeakDBTP :: float64
  FilenameValid :: bool
  MetadataPresent :: "string \<rightharpoonup> bool"
  Passed :: bool
  Failures :: "string list"

text \<open>The composite literal \<^verbatim>\<open>Result{}\<close>: every field at its zero value.\<close>

definition Result_zero :: Result where
  "Result_zero =
     \<lparr>SampleRate = 0, BitDepth = 0, Channels = 0, IntegratedLUFS = 0, TruePeakDBTP = 0,
      FilenameValid = False, MetadataPresent = Map.empty, Passed = False, Failures = []\<rparr>"

text \<open>
  The interface \<^verbatim>\<open>Engine\<close> is the record of its one method.  A Go function returning
  \<^verbatim>\<open>(Result, error)\<close> returns both values, so the model returns the pair.
\<close>

record Engine =
  Analyze :: "Context \<Rightarrow> Input \<Rightarrow> Result \<times> error option"

record Service =
  engine :: Engine

definition NewService :: "Engine \<Rightarrow> Service" where
  "NewService e = \<lparr>engine = e\<rparr>"

definition Run :: "Service \<Rightarrow> Context \<Rightarrow> Input \<Rightarrow> Result \<times> error option" where
  "Run s ctx inp = Analyze (engine s) ctx inp"

text \<open>\<^verbatim>\<open>type FFmpegOrchestrator struct{}\<close> has a single value.\<close>

datatype FFmpegOrchestrator = FFmpegOrchestrator

definition NewFFmpegOrchestrator :: FFmpegOrchestrator where
  "NewFFmpegOrchestrator = FFmpegOrchestrator"

definition FFmpegOrchestrator_Analyze ::
    "FFmpegOrchestrator \<Rightarrow> Context \<Rightarrow> Input \<Rightarrow> Result \<times> error option" where
  "FFmpegOrchestrator_Analyze orch ctx inp =
     (Result_zero, Some (errors_New ''ffmpeg orchestration not implemented''))"

text \<open>Using an \<^verbatim>\<open>FFmpegOrchestrator\<close> where an \<^verbatim>\<open>Engine\<close> is expected.\<close>

definition Engine_of_FFmpegOrchestrator :: "FFmpegOrchestrator \<Rightarrow> Engine" where
  "Engine_of_FFmpegOrchestrator orch = \<lparr>Analyze = FFmpegOrchestrator_Analyze orch\<rparr>"

text \<open>The QC service as the repository can build it: its one engine is the orchestrator.\<close>

definition qc_service :: Service where
  "qc_service = NewService (Engine_of_FFmpegOrchestrator NewFFmpegOrchestrator)"

text \<open>A Beatport delivery handed to the engine.\<close>

definition beatport_input :: Input where
  "beatport_input =
     \<lparr>Path = ''/tmp/qc/beatport.wav'',
      Filename = ''Artist-Track(IMR-012)[BEATPORT MASTER].wav'',
      MixType = MixTypeBeatportMaster\<rparr>"


section \<open>Storage adapter (package s3)\<close>

record Adapter =
  bucket :: string

definition NewAdapter :: "string \<Rightarrow> Adapter" where
  "NewAdapter b = \<lparr>bucket = b\<rparr>"

definition Adapter_DownloadToPath ::
    "Adapter \<Rightarrow> Context \<Rightarrow> string \<Rightarrow> string \<Rightarrow> error option" where
  "Adapter_DownloadToPath a ctx objectKey path = None"


section \<open>Use-case boundaries (package service)\<close>

text \<open>
  The rows of table \<^verbatim>\<open>qc_jobs\<close>, the state a job repository works on.  A repository
  method receives the rows and returns them with its error.
\<close>

type_synonym database = "Job list"

text \<open>Each interface is the record of its methods.\<close>

record JobRepository =
  Save :: "Context \<Rightarrow> Job \<Rightarrow> database \<Rightarrow> error option \<times> database"
  Update :: "Context \<Rightarrow> Job \<Rightarrow> database \<Rightarrow> error option \<times> database"

record JobQueue =
  Enqueue :: "Context \<Rightarrow> Job \<Rightarrow> error option"

record Storage =
  DownloadToPath :: "Context \<Rightarrow> string \<Rightarrow> string \<Rightarrow> error option"

record QCUseCase =
  jobs :: JobRepository
  queue :: JobQueue
  storage :: Storage
  qc :: Service

definition NewQCUseCase :: "JobRepository \<Rightarrow> JobQueue \<Rightarrow> Storage \<Rightarrow> Service \<Rightarrow> QCUseCase" where
  "NewQCUseCase js q st qcService = \<lparr>jobs = js, queue = q, storage = st, qc = qcService\<rparr>"

definition Storage_of_Adapter :: "Adapter \<Rightarrow> Storage" where
  "Storage_of_Adapter a = \<lparr>DownloadToPath = Adapter_DownloadToPath a\<rparr>"


section \<open>Job repository (package postgres)\<close>

text \<open>The \<^verbatim>\<open>*sql.DB\<close> handle is an address, \<open>None\<close> for nil.\<close>

record postgres_JobRepository =
  db :: "nat option"

definition NewJobRepository :: "nat option \<Rightarrow> postgres_JobRepository" where
  "NewJobRepository h = \<lparr>db = h\<rparr>"

text \<open>Both methods discard their arguments and issue no statement: the rows stay as they are.\<close>

definition postgres_Save ::
    "postgres_JobRepository \<Rightarrow> Context \<Rightarrow> Job \<Rightarrow> database \<Rightarrow> error option \<times> database" where
  "postgres_Save r ctx job rows = (None, rows)"

definition postgres_Update ::
    "postgres_JobRepository \<Rightarrow> Context \<Rightarrow> Job \<Rightarrow> database \<Rightarrow> error option \<times> database" where
  "postgres_Update r ctx job rows = (None, rows)"

definition JobRepository_of_postgres :: "postgres_JobRepository \<Rightarrow> JobRepository" where
  "JobRepository_of_postgres r = \<lparr>Save = postgres_Save r, Update = postgres_Update r\<rparr>"

text \<open>
  What a caller can ask of the persistence boundary: one of its two methods, with its
  arguments.  A sequence of calls is run in order on the rows.
\<close>

datatype repository_call = CallSave Context Job | CallUpdate Context Job

fun perform :: "JobRepository \<Rightarrow> repository_call \<Rightarrow> database \<Rightarrow> error option \<times> database" where
  "perform repo (CallSave ctx job) rows = Save repo ctx job rows"
| "perform repo (CallUpdate ctx job) rows = Update repo ctx job rows"

fun perform_all :: "JobRepository \<Rightarrow> repository_call list \<Rightarrow> database \<Rightarrow> database" where
  "perform_all repo [] rows = rows"
| "perform_all repo (c # cs) rows = perform_all repo cs (snd (perform repo c rows))"


section \<open>Schema (migrations/001_init.sql)\<close>

datatype sql_type = TEXT | INT | JSONB | TIMESTAMPTZ

record column =
  col_name :: string
  col_type :: sql_type
  not_null :: bool

definition qc_jobs :: "column list" where
  "qc_jobs =
     [\<lparr>col_name = ''id'', col_type = TEXT, not_null = True\<rparr>,
      \<lparr>col_name = ''release_id'', col_type = TEXT, not_null = True\<rparr>,
      \<lparr>col_name = ''track_id'', col_type = TEXT, not_null = True\<rparr>,
      \<lparr>col_name = ''mix_file_id'', col_type = TEXT, not_null = True\<rparr>,
      \<lparr>col_name = ''status'', col_type = TEXT, not_null = True\<rparr>,
      \<lparr>col_name = ''error'', col_type = TEXT, not_null = False\<rparr>,
      \<lparr>col_name = ''result'', col_type = JSONB, not_null = False\<rparr>,
      \<lparr>col_name = ''queued_at'', col_type = TIMESTAMPTZ, not_null = True\<rparr>,
      \<lparr>col_name = ''started_at'', col_type = TIMESTAMPTZ, not_null = False\<rparr>,
      \<lparr>col_name = ''finished_at'', col_type = TIMESTAMPTZ, not_null = False\<rparr>]"


section \<open>Notions the sources do not declare\<close>

text \<open>
  Modelled from the spec: the required-tag list of the Metadata Validator (Artist, Track
  Title, Label Name, Catalog Number, Release Year, in this order; ISRC is not in it).  The
  Go sources declare no tag list.  A tag is missing when the presence map does not hold
  \<open>true\<close> for it.
\<close>

definition required_tags :: "string list" where
  "required_tags = [''Artist'', ''Track Title'', ''Label Name'', ''Catalog Number'', ''Release Year'']"

definition missing_tags :: "(string \<rightharpoonup> bool) \<Rightarrow> string list" where
  "missing_tags present = filter (\<lambda>t. present t \<noteq> Some True) required_tags"

text \<open>
  Modelled from the spec: the catalog reference state of the data model
  (\<^verbatim>\<open>valid|stale|missing|soft_deleted|unknown\<close>).  Neither the Go sources nor the schema
  declare such an enumeration.
\<close>

datatype CatalogReferenceState = Valid | Stale | Missing | SoftDeleted | Unknown

text \<open>Two jobs agree on every field that \<^verbatim>\<open>domain.Job\<close> declares.\<close>

definition same_fields :: "Job \<Rightarrow> Job \<Rightarrow> bool" where
  "same_fields j j' \<longleftrightarrow>
     ID j = ID j' \<and> ReleaseID j = ReleaseID j' \<and> TrackID j = TrackID j' \<and>
     MixFileID j = MixFileID j' \<and> Status j = Status j' \<and> Error j = Error j' \<and>
     Result j = Result j' \<and> QueuedAt j = QueuedAt j' \<and> StartedAt j = StartedAt j' \<and>
     FinishedAt j = FinishedAt j'"


section \<open>Error values as allocated objects\<close>

text \<open>
  Each call of \<^verbatim>\<open>errors.New\<close> returns a distinct error value, a pointer to a fresh
  \<^verbatim>\<open>errorString\<close>, even if the text is identical.  Where two invocations are compared
  the allocation is explicit: a heap maps the addresses handed out so far to their texts,
  a call takes the heap and returns it extended, and an error is the address (\<open>None\<close> for
  nil).  Read through the heap, the error has the message that the functions above
  return.
\<close>

type_synonym address = nat

record heap =
  next_address :: address
  errorStrings :: "address \<rightharpoonup> string"

definition errors_New_alloc :: "string \<Rightarrow> heap \<Rightarrow> address \<times> heap" where
  "errors_New_alloc text h =
     (next_address h,
      h\<lparr>next_address := Suc (next_address h),
        errorStrings := (errorStrings h)(next_address h \<mapsto> text)\<rparr>)"

definition Analyze_alloc ::
    "FFmpegOrchestrator \<Rightarrow> Context \<Rightarrow> Input \<Rightarrow> heap \<Rightarrow> (Result \<times> address option) \<times> heap" where
  "Analyze_alloc orch ctx inp h =
     (case errors_New_alloc ''ffmpeg orchestration not implemented'' h of
        (e, h') \<Rightarrow> ((Result_zero, Some e), h'))"

text \<open>
  \<^verbatim>\<open>Service.Run\<close> on the service whose engine is the orchestrator: it hands the call to
  \<^verbatim>\<open>Analyze\<close> and returns what that returns.
\<close>

definition Run_alloc ::
    "Context \<Rightarrow> Input \<Rightarrow> heap \<Rightarrow> (Result \<times> address option) \<times> heap" where
  "Run_alloc ctx inp h = Analyze_alloc NewFFmpegOrchestrator ctx inp h"

text \<open>The method \<^verbatim>\<open>Error()\<close> of a returned error: its text in the heap.\<close>

definition Error_text :: "heap \<Rightarrow> address option \<Rightarrow> string option" where
  "Error_text h e = (case e of None \<Rightarrow> None | Some a \<Rightarrow> errorStrings h a)"

text \<open>Two invocations, one after the other: the second runs on the heap the first left.\<close>

definition invoke_twice ::
    "Context \<Rightarrow> Input \<Rightarrow> Context \<Rightarrow> Input \<Rightarrow> heap \<Rightarrow>
       (Result \<times> address option) \<times> (Result \<times> address option) \<times> heap" where
  "invoke_twice ctx1 inp1 ctx2 inp2 h =
     (case Run_alloc ctx1 inp1 h of
        (out1, h1) \<Rightarrow> (case Run_alloc ctx2 inp2 h1 of (out2, h2) \<Rightarrow> (out1, out2, h2)))"

definition empty_heap :: heap where
  "empty_heap = \<lparr>next_address = 0, errorStrings = Map.empty\<rparr>"


section \<open>Sample values\<close>

text \<open>A job that failed analysis and is kept in the table.\<close>

definition failed_job :: Job where
  "failed_job =
     \<lparr>ID = ''job-1'', ReleaseID = ''rel-1'', TrackID = ''trk-1'', MixFileID = ''mix-1'',
      Status = JobStatusFailed, Error = ''ffmpeg orchestration not implemented'',
      Result = None, QueuedAt = 10, StartedAt = Some 20, FinishedAt = Some 30\<rparr>"


section \<open>The engine as implemented\<close>

lemma Run_qc_service:
  "Run qc_service ctx inp =
     (Result_zero, Some (errors_New ''ffmpeg orchestration not implemented''))"
  by (simp add: Run_def qc_service_def NewService_def Engine_of_FFmpegOrchestrator_def
      FFmpegOrchestrator_Analyze_def)

lemma Analyze_Result_zero [simp]:
  "fst (FFmpegOrchestrator_Analyze orch ctx inp) = Result_zero"
  by (simp add: FFmpegOrchestrator_Analyze_def)

lemma Run_Result_zero [simp]: "fst (Run qc_service ctx inp) = Result_zero"
  by (simp add: Run_qc_service)

lemma Result_zero_fields [simp]:
  "SampleRate Result_zero = 0" "BitDepth Result_zero = 0" "Channels Result_zero = 0"
  "IntegratedLUFS Result_zero = 0" "TruePeakDBTP Result_zero = 0"
  "\<not> FilenameValid Result_zero" "MetadataPresent Result_zero = Map.empty"
  "\<not> Passed Result_zero" "Failures Result_zero = []"
  by (simp_all add: Result_zero_def)

lemma perform_postgres [simp]:
  "perform (JobRepository_of_postgres r) c rows = (None, rows)"
  by (cases c) (simp_all add: JobRepository_of_postgres_def postgres_Save_def postgres_Update_def)

lemma perform_all_postgres:
  "perform_all (JobRepository_of_postgres r) cs rows = rows"
  by (induction cs arbitrary: rows) simp_all

lemma same_fields_eq: "same_fields j j' \<longleftrightarrow> j = j'"
  by (cases j, cases j') (auto simp: same_fields_def)


lemma Run_alloc_eq:
  "Run_alloc ctx inp h =
     ((Result_zero, Some (next_address h)),
      h\<lparr>next_address := Suc (next_address h),
        errorStrings :=
          (errorStrings h)(next_address h \<mapsto> ''ffmpeg orchestration not implemented'')\<rparr>)"
  by (simp add: Run_alloc_def Analyze_alloc_def errors_New_alloc_def)


section \<open>Totality and errors of the evaluation\<close>

text \<open>
  C1, as stated, fails: the evaluation does return an error.  Handed a Beatport delivery,
  \<^verbatim>\<open>Service.Run\<close> over the orchestrator returns the error
  \<^verbatim>\<open>ffmpeg orchestration not implemented\<close>.
\<close>

theorem Analyze_beatport_returns_error:
  "snd (Run qc_service Background beatport_input) =
     Some (errorString ''ffmpeg orchestration not implemented'')"
  by (simp add: Run_qc_service errors_New_def)

text \<open>
  C1, amended: \<^verbatim>\<open>FFmpegOrchestrator.Analyze\<close> is a total, deterministic function of its
  arguments, and for every orchestrator, context and input it returns the zero
  \<^verbatim>\<open>Result\<close> together with the error \<^verbatim>\<open>ffmpeg orchestration not implemented\<close>;
  \<^verbatim>\<open>Service.Run\<close> hands exactly that on.  It never returns a nil error.
\<close>

theorem Analyze_always_not_implemented:
  "FFmpegOrchestrator_Analyze orch ctx inp =
     (Result_zero, Some (errorString ''ffmpeg orchestration not implemented'')) \<and>
   Run qc_service ctx inp = FFmpegOrchestrator_Analyze orch ctx inp"
  by (simp add: Run_qc_service FFmpegOrchestrator_Analyze_def errors_New_def)


section \<open>The pass verdict\<close>

text \<open>
  C2, as stated, fails: a Beatport delivery does not yield \<^verbatim>\<open>passed=true\<close>.  The
  engine does not read the file, so this holds whatever the audio measures, the mix at
  48000 Hz, 24 bit, 2 channels, -7.0 LUFS and -1.2 dBTP included.
\<close>

theorem beatport_not_passed:
  "\<not> Passed (fst (Run qc_service Background beatport_input))"
  by simp

text \<open>
  C2, amended: for every input the evaluation returns \<^verbatim>\<open>passed=false\<close> with an empty
  failure sequence, a measurement that is zero in every field, and a non-nil error.  No
  input yields \<^verbatim>\<open>passed=true\<close>.
\<close>

theorem Analyze_never_passes:
  "\<not> Passed (fst (Run qc_service ctx inp)) \<and>
   Failures (fst (Run qc_service ctx inp)) = [] \<and>
   SampleRate (fst (Run qc_service ctx inp)) = 0 \<and>
   BitDepth (fst (Run qc_service ctx inp)) = 0 \<and>
   Channels (fst (Run qc_service ctx inp)) = 0 \<and>
   IntegratedLUFS (fst (Run qc_service ctx inp)) = 0 \<and>
   TruePeakDBTP (fst (Run qc_service ctx inp)) = 0 \<and>
   snd (Run qc_service ctx inp) \<noteq> None"
  by (simp add: Run_qc_service)


section \<open>The loudness ceiling\<close>

text \<open>
  C3, as stated, fails: for a Beatport delivery the failures do not include
  \<^verbatim>\<open>LoudnessCeilingExceeded\<close>, however loud the file is.
\<close>

theorem beatport_no_ceiling_failure:
  "''LoudnessCeilingExceeded'' \<notin>
     set (Failures (fst (Run qc_service Background beatport_input)))"
  by simp

text \<open>
  C3, amended: for every input the evaluation yields \<^verbatim>\<open>passed=false\<close> and a failure
  sequence that holds no code at all: neither \<^verbatim>\<open>LoudnessCeilingExceeded\<close> nor
  \<^verbatim>\<open>LoudnessOutOfBand\<close> nor any other.
\<close>

theorem Analyze_reports_no_failure_code:
  "code \<notin> set (Failures (fst (FFmpegOrchestrator_Analyze orch ctx inp))) \<and>
   \<not> Passed (fst (FFmpegOrchestrator_Analyze orch ctx inp))"
  by simp


section \<open>Missing metadata\<close>

text \<open>
  C5, as stated, fails: for a Beatport delivery the presence map of the returned
  \<^verbatim>\<open>Result\<close> holds none of the five required tags, and the failure sequence is shorter
  than the list of missing tags (it is empty), so there is not one code per missing tag.
\<close>

theorem beatport_missing_tags_unreported:
  "length (Failures (fst (Run qc_service Background beatport_input))) <
   length (missing_tags (MetadataPresent (fst (Run qc_service Background beatport_input))))"
  by (simp add: missing_tags_def required_tags_def)

text \<open>
  C5, amended: for every input the evaluation returns an empty metadata-presence map, so
  that each of Artist, Track Title, Label Name, Catalog Number and Release Year counts
  as missing, and an empty failure sequence: no \<^verbatim>\<open>MetadataMissing\<close> code is emitted.
\<close>

theorem Analyze_reports_no_missing_tag:
  "MetadataPresent (fst (Run qc_service ctx inp)) = Map.empty \<and>
   missing_tags (MetadataPresent (fst (Run qc_service ctx inp))) = required_tags \<and>
   Failures (fst (Run qc_service ctx inp)) = []"
  by (simp add: missing_tags_def)


section \<open>What a job carries\<close>

text \<open>
  C6, as stated, fails: a job carries nothing in addition to the ten fields of
  \<^verbatim>\<open>domain.Job\<close>.  No reading of a catalog reference state from jobs can tell apart
  two jobs that agree on those fields, so no such state is carried beside them.
\<close>

theorem Job_carries_no_catalog_reference_state:
  "\<not> (\<exists>(crs :: Job \<Rightarrow> CatalogReferenceState) j j'. same_fields j j' \<and> crs j \<noteq> crs j')"
  by (simp add: same_fields_eq)

text \<open>
  C6, amended: every Job value consists of exactly its identity, release, track and
  mix-file references, status, error string, optional result, queued-at time and optional
  started-at and finished-at times; table \<^verbatim>\<open>qc_jobs\<close> has exactly the ten matching
  columns, none of them a catalog reference state.
\<close>

theorem Job_is_its_ten_fields:
  "j = \<lparr>ID = ID j, ReleaseID = ReleaseID j, TrackID = TrackID j, MixFileID = MixFileID j,
        Status = Status j, Error = Error j, Result = Result j, QueuedAt = QueuedAt j,
        StartedAt = StartedAt j, FinishedAt = FinishedAt j\<rparr> \<and>
   map col_name qc_jobs =
     [''id'', ''release_id'', ''track_id'', ''mix_file_id'', ''status'', ''error'', ''result'',
      ''queued_at'', ''started_at'', ''finished_at''] \<and>
   ''catalog_reference_state'' \<notin> set (map col_name qc_jobs)"
  by (simp add: qc_jobs_def)


section \<open>Determinism\<close>

text \<open>
  C8: two invocations of the evaluation with identical inputs return identical results.
  Run one after the other from any heap, under any two contexts, they return the same
  \<^verbatim>\<open>Result\<close>, hence the same failure sequence, element for element and in the same
  order, and errors with the same message; the two error values are distinct
  allocations.  The \<^verbatim>\<open>Result\<close> does not depend on the heap an invocation starts from,
  and it is the one that the evaluation returns when errors are read as their messages.
\<close>

theorem two_invocations_agree:
  assumes "inp1 = inp2"
    and "invoke_twice ctx1 inp1 ctx2 inp2 h = (out1, out2, h')"
  shows "fst out1 = fst out2 \<and>
         Failures (fst out1) = Failures (fst out2) \<and>
         Error_text h' (snd out1) = Error_text h' (snd out2) \<and>
         Error_text h' (snd out1) = Some ''ffmpeg orchestration not implemented'' \<and>
         snd out1 \<noteq> snd out2 \<and>
         fst (fst (Run_alloc ctx1 inp1 hA)) = fst (fst (Run_alloc ctx2 inp2 hB)) \<and>
         fst out1 = fst (FFmpegOrchestrator_Analyze orch ctx1 inp1)"
  using assms
  by (auto simp: invoke_twice_def Run_alloc_eq Error_text_def)

text \<open>
  C8 at the Beatport delivery, evaluated twice from the empty heap under two contexts:
  the results agree, the errors sit at addresses 0 and 1 and carry the same text.
\<close>

theorem two_invocations_agree_witness:
  "beatport_input = beatport_input \<and>
   invoke_twice Background beatport_input Canceled beatport_input empty_heap =
     ((Result_zero, Some 0), (Result_zero, Some 1),
      \<lparr>next_address = 2,
       errorStrings = [0 \<mapsto> ''ffmpeg orchestration not implemented'',
                       1 \<mapsto> ''ffmpeg orchestration not implemented'']\<rparr>) \<and>
   Error_text
     \<lparr>next_address = 2,
      errorStrings = [0 \<mapsto> ''ffmpeg orchestration not implemented'',
                      1 \<mapsto> ''ffmpeg orchestration not implemented'']\<rparr> (Some 0) =
   Error_text
     \<lparr>next_address = 2,
      errorStrings = [0 \<mapsto> ''ffmpeg orchestration not implemented'',
                      1 \<mapsto> ''ffmpeg orchestration not implemented'']\<rparr> (Some 1) \<and>
   Some (0::nat) \<noteq> Some 1"
proof -
  have i: "invoke_twice Background beatport_input Canceled beatport_input empty_heap =
     ((Result_zero, Some 0), (Result_zero, Some 1),
      \<lparr>next_address = 2,
       errorStrings = [0 \<mapsto> ''ffmpeg orchestration not implemented'',
                       1 \<mapsto> ''ffmpeg orchestration not implemented'']\<rparr>)"
    by (simp add: invoke_twice_def Run_alloc_eq empty_heap_def numeral_2_eq_2)
  from two_invocations_agree [OF refl i] i show ?thesis by simp
qed


section \<open>Jobs are never deleted\<close>

text \<open>
  C9: the persistence boundary offers \<^verbatim>\<open>Save\<close> and \<^verbatim>\<open>Update\<close> and nothing else, and
  under every sequence of such calls a stored job that has reached \<^verbatim>\<open>Completed\<close> or
  \<^verbatim>\<open>Failed\<close> is still stored afterwards.
\<close>

theorem finished_job_remains_stored:
  assumes "job \<in> set rows"
    and "Status job = JobStatusCompleted \<or> Status job = JobStatusFailed"
  shows "job \<in> set (perform_all (JobRepository_of_postgres r) cs rows)"
  using assms by (simp add: perform_all_postgres)

text \<open>C9 at a failed job, after an update and a save that name it.\<close>

theorem finished_job_remains_stored_witness:
  "failed_job \<in> set [failed_job] \<and>
   (Status failed_job = JobStatusCompleted \<or> Status failed_job = JobStatusFailed) \<and>
   failed_job \<in> set (perform_all (JobRepository_of_postgres (NewJobRepository (Some 1)))
       [CallUpdate Background (failed_job\<lparr>Status := JobStatusQueued\<rparr>),
        CallSave Canceled failed_job] [failed_job])"
proof -
  have a: "failed_job \<in> set [failed_job]" by simp
  have b: "Status failed_job = JobStatusCompleted \<or> Status failed_job = JobStatusFailed"
    by (simp add: failed_job_def)
  from finished_job_remains_stored [OF a b] a b show ?thesis by blast
qed


section \<open>Downloads\<close>

text \<open>
  C10: for every adapter, context, object key and destination path,
  \<^verbatim>\<open>DownloadToPath\<close> returns a nil error, also when called through the \<^verbatim>\<open>Storage\<close>
  boundary of the use case.
\<close>

theorem DownloadToPath_returns_nil:
  "Adapter_DownloadToPath a ctx objectKey path = None \<and>
   DownloadToPath (Storage_of_Adapter a) ctx objectKey path = None"
  by (simp add: Storage_of_Adapter_def Adapter_DownloadToPath_def)

end
